theory Spec2Isabelle
  imports Main "HOL-Library.Word"
begin

section \<open>The flash access layer of hw/hal/src/hal_flash.c\<close>

text \<open>
  The C file is a thin layer between callers and a per-device driver: it looks a device
  up by its id, checks the requested addresses against the device's bounds and then
  calls the driver through a table of function pointers. The embedding keeps the
  source's names. Addresses and lengths are \<open>uint32_t\<close>, modelled as 32-bit words
  whose \<open>+\<close> and \<open>-\<close> wrap; return codes and the sector index are C \<open>int\<close>s
  that are only compared and passed on, modelled as \<open>int\<close>.
\<close>

subsection \<open>Data model\<close>

type_synonym u8 = "8 word"
type_synonym u32 = "32 word"

text \<open>
  Modelled from the spec: \<open>struct hal_flash_funcs\<close> and \<open>struct hal_flash\<close> are
  declared in hal/hal_flash_int.h, which is not among the source files. The fields are
  the ones \<open>hal_flash.c\<close> uses, with the widths of the specification's data model
  (base address and size unsigned 32-bit, alignment unsigned 8-bit, sector count an
  integer) and the argument lists of the calls in \<open>hal_flash.c\<close>.

  \<open>struct hal_flash_funcs\<close> is the driver's function table. Every driver function acts
  on the hardware, so it takes the state \<open>'s\<close> of the world (flash contents, driver
  state) and returns the new one with its result. The C functions take the descriptor
  \<open>hf\<close> that holds the table as their first argument; here a table is already bound to
  its descriptor. \<open>hff_read\<close> returns its return code and the bytes it stored to the
  destination buffer (a driver stores as many bytes as it was asked for);
  \<open>hff_write\<close> takes the source buffer as the list of its bytes;
  \<open>hff_sector_info\<close> returns its return code and the values it stored to
  \<open>*address\<close> and \<open>*size\<close>; \<open>hff_is_empty\<close> may be a null pointer.
\<close>

record 's hal_flash_funcs =
  hff_read :: "u32 \<Rightarrow> u32 \<Rightarrow> 's \<Rightarrow> (int \<times> u8 list) \<times> 's"
  hff_write :: "u32 \<Rightarrow> u8 list \<Rightarrow> u32 \<Rightarrow> 's \<Rightarrow> int \<times> 's"
  hff_erase_sector :: "u32 \<Rightarrow> 's \<Rightarrow> int \<times> 's"
  hff_sector_info :: "int \<Rightarrow> 's \<Rightarrow> (int \<times> u32 \<times> u32) \<times> 's"
  hff_init :: "'s \<Rightarrow> int \<times> 's"
  hff_is_empty :: "(u32 \<Rightarrow> u32 \<Rightarrow> 's \<Rightarrow> int \<times> 's) option"

text \<open>\<open>struct hal_flash\<close>: the device descriptor.\<close>

record 's hal_flash =
  hf_itf :: "'s hal_flash_funcs"
  hf_base_addr :: u32
  hf_size :: u32
  hf_sector_cnt :: int
  hf_align :: u8

text \<open>
  \<open>hal_bsp_flash_dev\<close> is declared in hal/hal_bsp.h and implemented by the board
  support package: it maps a device id to its descriptor, or to a null pointer. The
  functions below take it as their first parameter.
\<close>

type_synonym 's bsp = "u8 \<Rightarrow> 's hal_flash option"

subsection \<open>Bounds validation and alignment\<close>

definition hal_flash_align :: "'s bsp \<Rightarrow> u8 \<Rightarrow> u8" where
  "hal_flash_align hal_bsp_flash_dev flash_id =
     (case hal_bsp_flash_dev flash_id of
        None \<Rightarrow> 1
      | Some hf \<Rightarrow> hf_align hf)"

definition hal_flash_check_addr :: "'s hal_flash \<Rightarrow> u32 \<Rightarrow> int" where
  "hal_flash_check_addr hf addr =
     (if addr < hf_base_addr hf \<or> addr > hf_base_addr hf + hf_size hf then - 1 else 0)"

subsection \<open>Build configuration\<close>

text \<open>
  The three settings the file reads through \<open>MYNEWT_VAL\<close>. They are fixed when the
  package is built and their values are not part of the file, so every function whose
  text depends on one takes the configuration as a parameter.
  \<open>HAL_FLASH_VERIFY_BUF_SZ\<close> is the size of the stack buffer of the two comparison
  loops (\<open>sizeof buf\<close>).
\<close>

record syscfg =
  HAL_FLASH_VERIFY_WRITES :: bool
  HAL_FLASH_VERIFY_ERASES :: bool
  HAL_FLASH_VERIFY_BUF_SZ :: nat

text \<open>
  A failed \<open>assert\<close> ends the program: it is the \<open>Inl\<close> of a result, a returned
  \<open>int\<close> is the \<open>Inr\<close>. The state of the world at that moment is kept in both.
\<close>

datatype fatal = Assertion_failed

subsection \<open>Initialisation\<close>

text \<open>
  \<open>for (i = 0; ; i++)\<close> over a \<open>uint8_t\<close> has no bound of its own: it ends at the
  first id without a descriptor, and \<open>i\<close> wraps from 255 to 0. A run that never
  returns is the value \<open>None\<close>.
\<close>

partial_function (option) hal_flash_init_loop ::
  "'s bsp \<Rightarrow> u8 \<Rightarrow> int \<Rightarrow> 's \<Rightarrow> (int \<times> 's) option" where
  "hal_flash_init_loop hal_bsp_flash_dev i rc s =
     (case hal_bsp_flash_dev i of
        None \<Rightarrow> Some (rc, s)
      | Some hf \<Rightarrow>
          (case hff_init (hf_itf hf) s of
             (r, s1) \<Rightarrow>
               hal_flash_init_loop hal_bsp_flash_dev (i + 1) (if r \<noteq> 0 then - 1 else rc) s1))"

definition hal_flash_init :: "'s bsp \<Rightarrow> 's \<Rightarrow> (int \<times> 's) option" where
  "hal_flash_init hal_bsp_flash_dev s = hal_flash_init_loop hal_bsp_flash_dev 0 0 s"

subsection \<open>Verification by reading back\<close>

text \<open>
  Both loops advance the \<open>uint32_t\<close> offset by \<open>sizeof buf\<close> until it reaches
  \<open>num_bytes\<close>; the offset can wrap before it does, so they are partial as well.
  \<open>chunk_sz\<close> is the number of bytes asked of the driver and compared: the size
  of the buffer, or what remains (\<open>rem = num_bytes - off\<close>) when that is less.
\<close>

definition chunk_sz :: "syscfg \<Rightarrow> u32 \<Rightarrow> nat" where
  "chunk_sz cfg rem =
     (if HAL_FLASH_VERIFY_BUF_SZ cfg \<le> unat rem then HAL_FLASH_VERIFY_BUF_SZ cfg else unat rem)"

partial_function (option) hal_flash_cmp_erased_loop ::
  "syscfg \<Rightarrow> 's hal_flash \<Rightarrow> u32 \<Rightarrow> u32 \<Rightarrow> u32 \<Rightarrow> 's \<Rightarrow> (int \<times> 's) option" where
  "hal_flash_cmp_erased_loop cfg hf address num_bytes off s =
     (if off < num_bytes then
        (case hff_read (hf_itf hf) (address + off)
                (of_nat (chunk_sz cfg (num_bytes - off))) s of
           ((rc, buf), s1) \<Rightarrow>
             if rc \<noteq> 0 then Some (rc, s1)
             else if list_ex (\<lambda>b. b \<noteq> 0xff)
                       (take (chunk_sz cfg (num_bytes - off)) buf)
             then Some (- 1, s1)
             else hal_flash_cmp_erased_loop cfg hf address num_bytes
                    (off + of_nat (HAL_FLASH_VERIFY_BUF_SZ cfg)) s1)
      else Some (0, s))"

definition hal_flash_cmp_erased ::
  "syscfg \<Rightarrow> 's hal_flash \<Rightarrow> u32 \<Rightarrow> u32 \<Rightarrow> 's \<Rightarrow> (int \<times> 's) option" where
  "hal_flash_cmp_erased cfg hf address num_bytes s =
     hal_flash_cmp_erased_loop cfg hf address num_bytes 0 s"



subsection \<open>Write\<close>


subsection \<open>Region erase\<close>

text \<open>
  The sector scan of \<open>hal_flash_erase\<close>, from index \<open>i\<close>: the body of
  \<open>for (i = 0; i < hf->hf_sector_cnt; i++)\<close>.
\<close>

function hal_flash_erase_loop ::
  "syscfg \<Rightarrow> 's hal_flash \<Rightarrow> u32 \<Rightarrow> u32 \<Rightarrow> int \<Rightarrow> 's \<Rightarrow> ((fatal + int) \<times> 's) option" where
  "hal_flash_erase_loop cfg hf address end_addr i s =
     (if i < hf_sector_cnt hf then
        (case hff_sector_info (hf_itf hf) i s of
           ((rc, start, size'), s1) \<Rightarrow>
             if rc \<noteq> 0 then Some (Inl Assertion_failed, s1)
             else if address < start + size' \<and> end_addr > start then
               (case hff_erase_sector (hf_itf hf) start s1 of
                  (rc2, s2) \<Rightarrow>
                    if rc2 \<noteq> 0 then Some (Inr (- 1), s2)
                    else if HAL_FLASH_VERIFY_ERASES cfg then
                      (case hal_flash_cmp_erased cfg hf start size' s2 of
                         None \<Rightarrow> None
                       | Some (rc3, s3) \<Rightarrow>
                           if rc3 = 0 then hal_flash_erase_loop cfg hf address end_addr (i + 1) s3
                           else Some (Inl Assertion_failed, s3))
                    else hal_flash_erase_loop cfg hf address end_addr (i + 1) s2)
             else hal_flash_erase_loop cfg hf address end_addr (i + 1) s1)
      else Some (Inr 0, s))"
  by pat_completeness auto
termination
  by (relation "measure (\<lambda>(cfg, hf, address, end_addr, i, s). nat (hf_sector_cnt hf - i))") auto

declare hal_flash_erase_loop.simps [simp del]

definition hal_flash_erase ::
  "syscfg \<Rightarrow> 's bsp \<Rightarrow> u8 \<Rightarrow> u32 \<Rightarrow> u32 \<Rightarrow> 's \<Rightarrow> ((fatal + int) \<times> 's) option" where
  "hal_flash_erase cfg hal_bsp_flash_dev id' address num_bytes s =
     (case hal_bsp_flash_dev id' of
        None \<Rightarrow> Some (Inr (- 1), s)
      | Some hf \<Rightarrow>
          if hal_flash_check_addr hf address \<noteq> 0 \<or>
             hal_flash_check_addr hf (address + num_bytes) \<noteq> 0
          then Some (Inr (- 1), s)
          else if address + num_bytes \<le> address then Some (Inr (- 1), s)
          else hal_flash_erase_loop cfg hf address (address + num_bytes) 0 s)"

subsection \<open>Constant fill and emptiness\<close>

text \<open>
  \<open>while (num_bytes)\<close> with a 32-byte buffer. The loop subtracts the block size from
  \<open>num_bytes\<close> and leaves \<open>address\<close> as it is, so every pass reads from the same
  address.
\<close>

function hal_flash_is_setto ::
  "'s hal_flash \<Rightarrow> u32 \<Rightarrow> u32 \<Rightarrow> u8 \<Rightarrow> 's \<Rightarrow> int \<times> 's" where
  "hal_flash_is_setto hf address num_bytes val s =
     (if num_bytes \<noteq> 0 then
        (case hff_read (hf_itf hf) address (if 32 > num_bytes then num_bytes else 32) s of
           ((rc, buf), s1) \<Rightarrow>
             if rc \<noteq> 0 then (- 1, s1)
             else if list_ex (\<lambda>b. b \<noteq> val)
                       (take (unat (if 32 > num_bytes then num_bytes else 32)) buf)
             then (0, s1)
             else hal_flash_is_setto hf address
                    (num_bytes - (if 32 > num_bytes then num_bytes else 32)) val s1)
      else (1, s))"
  by pat_completeness auto
termination
proof (relation "measure (\<lambda>(hf, address, num_bytes, val, s). unat num_bytes)")
  show "wf (measure (\<lambda>(hf, address, num_bytes, val, s). unat num_bytes))"
    by simp
next
  fix hf :: "'s hal_flash" and address num_bytes :: u32 and val :: u8 and s :: 's
    and x :: "(int \<times> u8 list) \<times> 's" and xa :: "int \<times> u8 list" and s1 :: 's
    and rc :: int and buf :: "u8 list"
  assume "num_bytes \<noteq> 0"
  then have "unat (num_bytes - (if 32 > num_bytes then num_bytes else 32)) < unat num_bytes"
    by (auto simp: unat_sub word_le_nat_alt word_less_nat_alt unat_gt_0 not_less)
  then show "((hf, address, num_bytes - (if 32 > num_bytes then num_bytes else 32), val, s1),
      (hf, address, num_bytes, val, s)) \<in> measure (\<lambda>(hf, address, num_bytes, val, s). unat num_bytes)"
    by simp
qed

declare hal_flash_is_setto.simps [simp del]

definition hal_flash_is_ones :: "'s hal_flash \<Rightarrow> u32 \<Rightarrow> u32 \<Rightarrow> 's \<Rightarrow> int \<times> 's" where
  "hal_flash_is_ones hf address num_bytes s = hal_flash_is_setto hf address num_bytes 0xff s"

definition hal_flash_is_zeroes :: "'s hal_flash \<Rightarrow> u32 \<Rightarrow> u32 \<Rightarrow> 's \<Rightarrow> int \<times> 's" where
  "hal_flash_is_zeroes hf address num_bytes s = hal_flash_is_setto hf address num_bytes 0 s"

definition hal_flash_isempty :: "'s bsp \<Rightarrow> u8 \<Rightarrow> u32 \<Rightarrow> u32 \<Rightarrow> 's \<Rightarrow> int \<times> 's" where
  "hal_flash_isempty hal_bsp_flash_dev id' address num_bytes s =
     (case hal_bsp_flash_dev id' of
        None \<Rightarrow> (- 1, s)
      | Some hf \<Rightarrow>
          if hal_flash_check_addr hf address \<noteq> 0 \<or>
             hal_flash_check_addr hf (address + num_bytes) \<noteq> 0
          then (- 1, s)
          else
            (case hff_is_empty (hf_itf hf) of
               Some is_empty \<Rightarrow> is_empty address num_bytes s
             | None \<Rightarrow> hal_flash_is_ones hf address num_bytes s))"

subsection \<open>Drivers for examples\<close>

text \<open>
  The driver and the registry are outside the file. Two stand-ins make its behaviour
  observable at concrete inputs. \<open>traced f\<close> is the driver \<open>f\<close> with a log: every
  call through the table appends one entry, so the log of a run is the sequence of
  driver calls the layer made.
\<close>

datatype call =
    Call_init
  | Call_read u32 u32
  | Call_write u32 "u8 list" u32
  | Call_erase_sector u32
  | Call_sector_info int
  | Call_is_empty u32 u32

definition traced :: "'s hal_flash_funcs \<Rightarrow> ('s \<times> call list) hal_flash_funcs" where
  "traced f =
     \<lparr> hff_read = (\<lambda>address num_bytes (s, l).
         case hff_read f address num_bytes s of
           (r, s1) \<Rightarrow> (r, (s1, l @ [Call_read address num_bytes]))),
       hff_write = (\<lambda>address src num_bytes (s, l).
         case hff_write f address src num_bytes s of
           (r, s1) \<Rightarrow> (r, (s1, l @ [Call_write address src num_bytes]))),
       hff_erase_sector = (\<lambda>address (s, l).
         case hff_erase_sector f address s of
           (r, s1) \<Rightarrow> (r, (s1, l @ [Call_erase_sector address]))),
       hff_sector_info = (\<lambda>idx (s, l).
         case hff_sector_info f idx s of
           (r, s1) \<Rightarrow> (r, (s1, l @ [Call_sector_info idx]))),
       hff_init = (\<lambda>(s, l).
         case hff_init f s of
           (r, s1) \<Rightarrow> (r, (s1, l @ [Call_init]))),
       hff_is_empty =
         (case hff_is_empty f of
            None \<Rightarrow> None
          | Some g \<Rightarrow> Some (\<lambda>address num_bytes (s, l).
              case g address num_bytes s of
                (r, s1) \<Rightarrow> (r, (s1, l @ [Call_is_empty address num_bytes])))) \<rparr>"



text \<open>
  \<open>ram_funcs base sector_sz\<close> is a driver for a flash image held in memory (a byte
  for every address), with sectors of one size counted from \<open>base\<close>: reads copy the
  image, writes store the source, an erase sets the sector that holds the address to
  \<open>0xff\<close>. No call fails.
\<close>

definition ram_funcs :: "u32 \<Rightarrow> u32 \<Rightarrow> (u32 \<Rightarrow> u8) hal_flash_funcs" where
  "ram_funcs base sector_sz =
     \<lparr> hff_read = (\<lambda>address num_bytes m.
         ((0, map (\<lambda>k. m (address + of_nat k)) [0..<unat num_bytes]), m)),
       hff_write = (\<lambda>address src num_bytes m.
         (0, (\<lambda>x. if unat (x - address) < unat num_bytes \<and> unat (x - address) < length src
                   then src ! unat (x - address) else m x))),
       hff_erase_sector = (\<lambda>address m.
         (0, (\<lambda>x. if (x - base) div sector_sz = (address - base) div sector_sz
                   then 0xff else m x))),
       hff_sector_info = (\<lambda>idx m. ((0, base + of_int idx * sector_sz, sector_sz), m)),
       hff_init = (\<lambda>m. (0, m)),
       hff_is_empty = None \<rparr>"

definition ram_dev :: "u32 \<Rightarrow> u32 \<Rightarrow> int \<Rightarrow> u32 \<Rightarrow> (u32 \<Rightarrow> u8) hal_flash" where
  "ram_dev base sz cnt sector_sz =
     \<lparr> hf_itf = ram_funcs base sector_sz, hf_base_addr = base, hf_size = sz,
       hf_sector_cnt = cnt, hf_align = 1 \<rparr>"

definition traced_dev :: "'s hal_flash \<Rightarrow> ('s \<times> call list) hal_flash" where
  "traced_dev hf =
     \<lparr> hf_itf = traced (hf_itf hf), hf_base_addr = hf_base_addr hf, hf_size = hf_size hf,
       hf_sector_cnt = hf_sector_cnt hf, hf_align = hf_align hf \<rparr>"

text \<open>
  The device of the specification's example: base \<open>0x8000\<close>, size \<open>0x1000\<close>, four
  sectors of \<open>0x400\<close> bytes. And two configurations: verification off, and
  verification on with a 16-byte buffer.
\<close>

definition example_dev :: "(u32 \<Rightarrow> u8) hal_flash" where
  "example_dev = ram_dev 0x8000 0x1000 4 0x400"

definition cfg_plain :: syscfg where
  "cfg_plain = \<lparr> HAL_FLASH_VERIFY_WRITES = False, HAL_FLASH_VERIFY_ERASES = False,
       HAL_FLASH_VERIFY_BUF_SZ = 16 \<rparr>"



text \<open>The example device with an erase that fails (returns -3) at one sector address.\<close>

definition flaky_dev :: "u32 \<Rightarrow> (u32 \<Rightarrow> u8) hal_flash" where
  "flaky_dev bad =
     example_dev\<lparr>hf_itf := (hf_itf example_dev)\<lparr>hff_erase_sector :=
       (\<lambda>address m. if address = bad then (- 3, m)
                     else hff_erase_sector (hf_itf example_dev) address m)\<rparr>\<rparr>"


text \<open>A registry that knows the devices of a list under the ids 0, 1, ...\<close>

definition bsp_of :: "'s hal_flash list \<Rightarrow> 's bsp" where
  "bsp_of hfs = (\<lambda>i. if unat i < length hfs then Some (hfs ! unat i) else None)"

text \<open>
  A device for the initialisation examples: its state is the list of the tags of the
  devices initialised so far, and its init returns the given code.
\<close>

definition tagged_dev :: "nat \<Rightarrow> int \<Rightarrow> nat list hal_flash" where
  "tagged_dev tag rc =
     \<lparr> hf_itf =
         \<lparr> hff_read = (\<lambda>address num_bytes s. ((0, replicate (unat num_bytes) 0xff), s)),
           hff_write = (\<lambda>address src num_bytes s. (0, s)),
           hff_erase_sector = (\<lambda>address s. (0, s)),
           hff_sector_info = (\<lambda>idx s. ((0, 0, 0), s)),
           hff_init = (\<lambda>s. (rc, s @ [tag])),
           hff_is_empty = None \<rparr>,
       hf_base_addr = 0, hf_size = 0, hf_sector_cnt = 0, hf_align = 1 \<rparr>"

subsection \<open>The specification's reading of initialisation\<close>

text \<open>
  This definition follows the specification's words, not the C loop: every device of
  a list is initialised in order, whatever the earlier results were, and the return
  codes are collected. It is what \<open>hal_flash_init\<close> is compared with.
\<close>

fun init_each :: "'s hal_flash list \<Rightarrow> 's \<Rightarrow> int list \<times> 's" where
  "init_each [] s = ([], s)"
| "init_each (hf # hfs) s =
     (case hff_init (hf_itf hf) s of
        (r, s1) \<Rightarrow> (case init_each hfs s1 of (rs, s2) \<Rightarrow> (r # rs, s2)))"

section \<open>Properties\<close>

subsection \<open>32-bit arithmetic\<close>

lemma u32_bound: "unat (x::u32) < 4294967296"
  using unsigned_less[of x, where ?'a = nat] by simp

lemma u32_max_iff: "(x::u32) = 0xffffffff \<longleftrightarrow> unat x = 4294967295"
  by (simp add: word_unat_eq_iff)

lemma u32_pred_less: "(b::u32) \<noteq> 0 \<Longrightarrow> b - 1 < b"
  by (simp add: word_less_nat_alt unat_minus_one unat_gt_0)

lemma u32_succ_greater: "(x::u32) \<noteq> 0xffffffff \<Longrightarrow> x < x + 1"
  using u32_bound[of x]
  by (simp add: u32_max_iff word_less_nat_alt unat_word_ariths)

lemma u32_add_le_iff:
  "(a::u32) + n \<le> a \<longleftrightarrow> n = 0 \<or> 2 ^ 32 \<le> unat a + unat n"
proof (cases "unat a + unat n < 2 ^ 32")
  case True
  then have "unat (a + n) = unat a + unat n"
    using unat_add_lem[of a n] by simp
  then show ?thesis using True by (simp add: word_le_nat_alt unat_eq_zero)
next
  case False
  then have "unat (a + n) = unat a + unat n - 2 ^ 32"
    using unat_plus_if'[of a n] by simp
  then show ?thesis using False u32_bound[of n] by (simp add: word_le_nat_alt)
qed

lemma u32_max_le_iff: "(0xffffffff::u32) \<le> x \<longleftrightarrow> x = 0xffffffff"
  using u32_bound[of x]
  by (auto simp add: u32_max_iff word_le_nat_alt)

subsection \<open>Bounds validation\<close>

lemma check_addr_iff:
  "hal_flash_check_addr hf a = 0 \<longleftrightarrow>
     hf_base_addr hf \<le> a \<and> a \<le> hf_base_addr hf + hf_size hf"
  by (auto simp: hal_flash_check_addr_def)

lemma check_addr_base:
  "hal_flash_check_addr hf (hf_base_addr hf) = 0 \<longleftrightarrow>
     unat (hf_base_addr hf) + unat (hf_size hf) < 2 ^ 32"
  using no_olen_add_nat[of "hf_base_addr hf" "hf_size hf"] by (simp add: check_addr_iff)

lemma check_addr_end:
  "hal_flash_check_addr hf (hf_base_addr hf + hf_size hf) = 0 \<longleftrightarrow>
     unat (hf_base_addr hf) + unat (hf_size hf) < 2 ^ 32"
  using no_olen_add_nat[of "hf_base_addr hf" "hf_size hf"] by (simp add: check_addr_iff)

lemma check_addr_below:
  "hal_flash_check_addr hf (hf_base_addr hf - 1) = - 1 \<longleftrightarrow>
     \<not> (hf_base_addr hf = 0 \<and> hf_size hf = 0xffffffff)"
proof (cases "hf_base_addr hf = 0")
  case True
  have "(0 - 1 :: u32) = 0xffffffff" by simp
  then show ?thesis using u32_max_le_iff[of "hf_size hf"] True
    by (auto simp add: hal_flash_check_addr_def not_less simp del: diff_0)
next
  case False
  then show ?thesis using u32_pred_less[of "hf_base_addr hf"]
    by (simp add: hal_flash_check_addr_def)
qed

lemma check_addr_above:
  "hal_flash_check_addr hf (hf_base_addr hf + hf_size hf + 1) = - 1 \<longleftrightarrow>
     \<not> (hf_base_addr hf = 0 \<and> hf_size hf = 0xffffffff)"
proof (cases "hf_base_addr hf + hf_size hf = 0xffffffff")
  case True
  then have e: "hf_base_addr hf + hf_size hf + 1 = 0" by simp
  have "hf_base_addr hf = 0 \<Longrightarrow> hf_size hf = 0xffffffff" using True by simp
  moreover have "hf_base_addr hf \<noteq> 0 \<Longrightarrow> 0 < hf_base_addr hf"
    by (simp add: word_neq_0_conv)
  ultimately show ?thesis unfolding hal_flash_check_addr_def e
    by (auto simp: True)
next
  case False
  then have "hf_base_addr hf + hf_size hf < hf_base_addr hf + hf_size hf + 1"
    by (rule u32_succ_greater)
  moreover have "\<not> (hf_base_addr hf = 0 \<and> hf_size hf = 0xffffffff)" using False by auto
  ultimately show ?thesis by (simp add: hal_flash_check_addr_def)
qed

text \<open>
  C1, as the claim states it, fails at two descriptors. A device that ends at the top of
  the address space (base \<open>0xffff0000\<close>, size \<open>0x10000\<close>) has \<open>base + size = 0\<close>
  in 32-bit arithmetic, so its own base and its \<open>base + size\<close> are rejected. A device
  that spans the whole address space (base 0, size \<open>0xffffffff\<close>) accepts
  \<open>base - 1\<close> and \<open>base + size + 1\<close>, which wrap into the range.
\<close>

theorem hal_flash_check_addr_boundary_counterexample:
  "hal_flash_check_addr (ram_dev 0xffff0000 0x10000 16 0x1000) 0xffff0000 = - 1 \<and>
   hal_flash_check_addr (ram_dev 0xffff0000 0x10000 16 0x1000) (0xffff0000 + 0x10000) = - 1 \<and>
   hal_flash_check_addr (ram_dev 0 0xffffffff 1 0xffffffff) (0 - 1) = 0 \<and>
   hal_flash_check_addr (ram_dev 0 0xffffffff 1 0xffffffff) (0 + 0xffffffff + 1) = 0"
  by (simp add: hal_flash_check_addr_def ram_dev_def)

text \<open>
  C1, amended. For every descriptor and every address, validation succeeds (returns 0)
  exactly when \<open>base \<le> a \<le> base + size\<close>, the sum taken in 32-bit arithmetic, and
  returns -1 otherwise. The boundary values \<open>base\<close> and \<open>base + size\<close> succeed
  exactly when \<open>base + size\<close> does not wrap; \<open>base - 1\<close> and \<open>base + size + 1\<close>
  (in 32-bit arithmetic) fail exactly when the device is not the whole address space
  (not both \<open>base = 0\<close> and \<open>size = 0xffffffff\<close>).
\<close>

theorem hal_flash_check_addr_range:
  "(hal_flash_check_addr hf a = 0 \<longleftrightarrow>
      hf_base_addr hf \<le> a \<and> a \<le> hf_base_addr hf + hf_size hf) \<and>
   (hal_flash_check_addr hf a \<noteq> 0 \<longleftrightarrow> hal_flash_check_addr hf a = - 1) \<and>
   (hal_flash_check_addr hf (hf_base_addr hf) = 0 \<longleftrightarrow>
      unat (hf_base_addr hf) + unat (hf_size hf) < 2 ^ 32) \<and>
   (hal_flash_check_addr hf (hf_base_addr hf + hf_size hf) = 0 \<longleftrightarrow>
      unat (hf_base_addr hf) + unat (hf_size hf) < 2 ^ 32) \<and>
   (hal_flash_check_addr hf (hf_base_addr hf - 1) = - 1 \<longleftrightarrow>
      \<not> (hf_base_addr hf = 0 \<and> hf_size hf = 0xffffffff)) \<and>
   (hal_flash_check_addr hf (hf_base_addr hf + hf_size hf + 1) = - 1 \<longleftrightarrow>
      \<not> (hf_base_addr hf = 0 \<and> hf_size hf = 0xffffffff))"
proof -
  have "hal_flash_check_addr hf a \<noteq> 0 \<longleftrightarrow> hal_flash_check_addr hf a = - 1"
    by (simp add: hal_flash_check_addr_def)
  then show ?thesis
    using check_addr_iff[of hf a] check_addr_base[of hf] check_addr_end[of hf]
      check_addr_below[of hf] check_addr_above[of hf]
    by blast
qed

text \<open>
  The device of the specification's example (base \<open>0x8000\<close>, size \<open>0x1000\<close>):
  \<open>0x8000\<close> and \<open>0x9000\<close> pass, \<open>0x7fff\<close> and \<open>0x9001\<close> fail.
\<close>

theorem hal_flash_check_addr_range_witness:
  "hal_flash_check_addr (ram_dev 0x8000 0x1000 4 0x400) 0x8000 = 0 \<and>
   hal_flash_check_addr (ram_dev 0x8000 0x1000 4 0x400) 0x9000 = 0 \<and>
   hal_flash_check_addr (ram_dev 0x8000 0x1000 4 0x400) 0x7fff = - 1 \<and>
   hal_flash_check_addr (ram_dev 0x8000 0x1000 4 0x400) 0x9001 = - 1"
  using hal_flash_check_addr_range[of "ram_dev 0x8000 0x1000 4 0x400" "0x8000"]
  by (simp add: ram_dev_def)

subsection \<open>Alignment\<close>

text \<open>
  C10. \<open>hal_flash_align\<close> has no failure value: for a known id it returns the
  descriptor's alignment, for an unknown id it returns 1, and so an unknown id gives the
  same answer as a known device whose alignment is 1.
\<close>

theorem hal_flash_align_total:
  "(bsp i = None \<longrightarrow> hal_flash_align bsp i = 1) \<and>
   (\<forall>hf. bsp i = Some hf \<longrightarrow> hal_flash_align bsp i = hf_align hf) \<and>
   (\<forall>j hf. bsp i = None \<and> bsp j = Some hf \<and> hf_align hf = 1 \<longrightarrow>
      hal_flash_align bsp i = hal_flash_align bsp j)"
  by (simp add: hal_flash_align_def)

theorem hal_flash_align_total_witness:
  "bsp_of [ram_dev 0x8000 0x1000 4 0x400] 7 = None \<and>
   bsp_of [ram_dev 0x8000 0x1000 4 0x400] 0 = Some (ram_dev 0x8000 0x1000 4 0x400) \<and>
   hal_flash_align (bsp_of [ram_dev 0x8000 0x1000 4 0x400]) 7 = 1 \<and>
   hal_flash_align (bsp_of [ram_dev 0x8000 0x1000 4 0x400]) 0 = 1"
  using hal_flash_align_total[of "bsp_of [ram_dev 0x8000 0x1000 4 0x400]" 7]
    hal_flash_align_total[of "bsp_of [ram_dev 0x8000 0x1000 4 0x400]" 0]
  by (simp add: bsp_of_def ram_dev_def)

subsection \<open>Requests rejected before the driver\<close>



text \<open>
  C3, as the claim states it, fails for an empty request: \<open>hal_flash_erase\<close> of 0 bytes
  at \<open>0x8300\<close> on the example device passes both bounds checks and \<open>0x8300 + 0\<close>
  does not wrap, yet the call returns -1 with no sector queried (the log of the driver's
  calls stays empty).
\<close>

theorem hal_flash_erase_empty_counterexample:
  "hal_flash_check_addr (traced_dev example_dev) 0x8300 = 0 \<and>
   hal_flash_check_addr (traced_dev example_dev) (0x8300 + 0) = 0 \<and>
   unat (0x8300 :: u32) + unat (0 :: u32) < 2 ^ 32 \<and>
   hal_flash_erase cfg_plain (bsp_of [traced_dev example_dev]) 0 0x8300 0 (\<lambda>a. 0, [])
     = Some (Inr (- 1), (\<lambda>a. 0, []))"
  by (simp add: hal_flash_erase_def bsp_of_def traced_dev_def example_dev_def ram_dev_def
      hal_flash_check_addr_def)

text \<open>A scan returns -1 only out of a driver erase that returned a non-zero code.\<close>

lemma erase_loop_failure:
  "hal_flash_erase_loop cfg hf address end_addr i s = Some (Inr (- 1), s') \<Longrightarrow>
   \<exists>start s1 rc. hff_erase_sector (hf_itf hf) start s1 = (rc, s') \<and> rc \<noteq> 0"
proof (induction "nat (hf_sector_cnt hf - i)" arbitrary: i s)
  case 0
  then show ?case by (subst (asm) hal_flash_erase_loop.simps) simp
next
  case (Suc n)
  then have lt: "i < hf_sector_cnt hf" and n: "n = nat (hf_sector_cnt hf - (i + 1))"
    by auto
  note ih = Suc.hyps(1)[OF n]
  show ?case
    using Suc.prems lt
    apply (subst (asm) hal_flash_erase_loop.simps)
    apply (auto split: prod.splits if_splits option.splits dest: ih)
    done
qed

text \<open>
  C3, amended. For an erase request on a known device whose \<open>address\<close> and
  \<open>address + num_bytes\<close> both pass bounds validation: if \<open>num_bytes\<close> is 0 or
  \<open>address + num_bytes\<close> wraps past the 32-bit range (the two cases of
  \<open>end <= address\<close>), the call returns -1 and the state of the world is untouched, so
  no sector was queried or erased; otherwise the call is the sector scan from index 0,
  and a -1 it returns is the outcome of a driver erase that failed, not of the guard.
\<close>

theorem hal_flash_erase_guard:
  "bsp i = Some hf \<and> hal_flash_check_addr hf address = 0 \<and>
   hal_flash_check_addr hf (address + num_bytes) = 0 \<longrightarrow>
     (num_bytes = 0 \<or> 2 ^ 32 \<le> unat address + unat num_bytes \<longrightarrow>
        hal_flash_erase cfg bsp i address num_bytes s = Some (Inr (- 1), s)) \<and>
     (num_bytes \<noteq> 0 \<and> unat address + unat num_bytes < 2 ^ 32 \<longrightarrow>
        hal_flash_erase cfg bsp i address num_bytes s =
          hal_flash_erase_loop cfg hf address (address + num_bytes) 0 s \<and>
        (\<forall>s'. hal_flash_erase cfg bsp i address num_bytes s = Some (Inr (- 1), s') \<longrightarrow>
           (\<exists>start s1 rc. hff_erase_sector (hf_itf hf) start s1 = (rc, s') \<and> rc \<noteq> 0)))"
  using u32_add_le_iff[of address num_bytes]
    erase_loop_failure[of cfg hf address "address + num_bytes" 0 s]
  by (auto simp: hal_flash_erase_def)

text \<open>
  On the example device: \<open>0x8300 + 0xffffffff\<close> wraps to \<open>0x82ff\<close>, which is in
  range, and the request is rejected with an empty log; \<open>0x8300 + 0x200\<close> does not
  wrap and the request is the scan.
\<close>

theorem hal_flash_erase_guard_witness:
  "hal_flash_check_addr (traced_dev example_dev) (0x8300 + 0xffffffff) = 0 \<and>
   hal_flash_erase cfg_plain (bsp_of [traced_dev example_dev]) 0 0x8300 0xffffffff (\<lambda>a. 0, [])
     = Some (Inr (- 1), (\<lambda>a. 0, [])) \<and>
   hal_flash_erase cfg_plain (bsp_of [traced_dev example_dev]) 0 0x8300 0x200 (\<lambda>a. 0, [])
     = hal_flash_erase_loop cfg_plain (traced_dev example_dev) 0x8300 0x8500 0 (\<lambda>a. 0, [])"
  using hal_flash_erase_guard[of "bsp_of [traced_dev example_dev]" 0 "traced_dev example_dev"
      "0x8300" "0xffffffff" cfg_plain "(\<lambda>a. 0, [])"]
    hal_flash_erase_guard[of "bsp_of [traced_dev example_dev]" 0 "traced_dev example_dev"
      "0x8300" "0x200" cfg_plain "(\<lambda>a. 0, [])"]
  by (simp add: bsp_of_def hal_flash_check_addr_def traced_dev_def example_dev_def ram_dev_def)

subsection \<open>The sector scan\<close>



lemma cmp_erased_loop_itf:
  assumes "hal_flash_cmp_erased_loop cfg (hf :: 's hal_flash) address num_bytes off s = Some y"
    and "hf_itf hf' = hf_itf hf"
  shows "hal_flash_cmp_erased_loop cfg hf' address num_bytes off s = Some y"
proof -
  have "\<forall>hf'. hf_itf hf' = hf_itf hf \<longrightarrow>
      hal_flash_cmp_erased_loop cfg hf' address num_bytes off s = Some y"
  proof (rule hal_flash_cmp_erased_loop.raw_induct
    [where P = "\<lambda>cfg hf address num_bytes off s y.
        \<forall>hf'. hf_itf hf' = hf_itf hf \<longrightarrow>
          hal_flash_cmp_erased_loop cfg hf' address num_bytes off s = Some y",
      OF _ assms(1)])
  fix g :: "syscfg \<Rightarrow> 's hal_flash \<Rightarrow> u32 \<Rightarrow> u32 \<Rightarrow> u32 \<Rightarrow> 's \<Rightarrow> (int \<times> 's) option"
    and cfg and hf :: "'s hal_flash" and address num_bytes off and s :: 's and y
  assume ih: "\<And>cfg hf address num_bytes off s y.
      g cfg hf address num_bytes off s = Some y \<Longrightarrow>
      \<forall>hf'. hf_itf hf' = hf_itf hf \<longrightarrow>
        hal_flash_cmp_erased_loop cfg hf' address num_bytes off s = Some y"
    and body: "(if off < num_bytes then
        (case hff_read (hf_itf hf) (address + off)
                (of_nat (chunk_sz cfg (num_bytes - off))) s of
           ((rc, buf), s1) \<Rightarrow>
             if rc \<noteq> 0 then Some (rc, s1)
             else if list_ex (\<lambda>b. b \<noteq> 0xff)
                       (take (chunk_sz cfg (num_bytes - off)) buf)
             then Some (- 1, s1)
             else g cfg hf address num_bytes
                    (off + of_nat (HAL_FLASH_VERIFY_BUF_SZ cfg)) s1)
      else Some (0, s)) = Some y"
  show "\<forall>hf'. hf_itf hf' = hf_itf hf \<longrightarrow>
      hal_flash_cmp_erased_loop cfg hf' address num_bytes off s = Some y"
  proof (intro allI impI)
    fix hf' :: "'s hal_flash"
    assume itf: "hf_itf hf' = hf_itf hf"
    show "hal_flash_cmp_erased_loop cfg hf' address num_bytes off s = Some y"
      using body itf
      by (subst hal_flash_cmp_erased_loop.simps)
        (auto split: if_splits prod.splits intro!: ih[rule_format])
  qed
  qed
  then show ?thesis using assms(2) by blast
qed


lemma cmp_erased_itf:
  assumes "hf_itf (hf' :: 's hal_flash) = hf_itf hf"
  shows "hal_flash_cmp_erased cfg hf' address num_bytes s =
    hal_flash_cmp_erased cfg hf address num_bytes s"
proof (cases "hal_flash_cmp_erased_loop cfg hf address num_bytes 0 s")
  case None
  have "hal_flash_cmp_erased_loop cfg hf' address num_bytes 0 s \<noteq> Some y" for y
    using cmp_erased_loop_itf[of cfg hf' address num_bytes 0 s y hf] assms None by auto
  then show ?thesis using None
    by (cases "hal_flash_cmp_erased_loop cfg hf' address num_bytes 0 s")
      (auto simp: hal_flash_cmp_erased_def)
next
  case (Some y)
  then show ?thesis
    using cmp_erased_loop_itf[of cfg hf address num_bytes 0 s y hf'] assms
    by (simp add: hal_flash_cmp_erased_def)
qed

lemma erase_loop_prefix:
  assumes "hal_flash_erase_loop cfg (hf\<lparr>hf_sector_cnt := k\<rparr>) address end_addr i s =
      Some (Inr 0, sk)"
    and "k \<le> hf_sector_cnt hf" and "i \<le> k"
  shows "hal_flash_erase_loop cfg hf address end_addr i s =
    hal_flash_erase_loop cfg hf address end_addr k sk"
  using assms
proof (induction "nat (k - i)" arbitrary: i s)
  case 0
  then have "i = k" by simp
  then show ?case using "0.prems"(1) by (simp add: hal_flash_erase_loop.simps[of _ _ _ _ k s])
next
  case (Suc n)
  then have lt: "i < k" and n: "n = nat (k - (i + 1))" and le: "i + 1 \<le> k" by auto
  have ih: "hal_flash_erase_loop cfg (hf\<lparr>hf_sector_cnt := k\<rparr>) address end_addr (i + 1) s' =
      Some (Inr 0, sk) \<Longrightarrow>
    hal_flash_erase_loop cfg hf address end_addr (i + 1) s' =
      hal_flash_erase_loop cfg hf address end_addr k sk" for s'
    using Suc.hyps(1)[OF n _ Suc.prems(2) le] by simp
  have c: "hal_flash_cmp_erased cfg (hf\<lparr>hf_sector_cnt := k\<rparr>) a b s' =
      hal_flash_cmp_erased cfg hf a b s'" for a b s'
    by (rule cmp_erased_itf) simp
  show ?case
    using Suc.prems(1) lt Suc.prems(2)
    apply (subst hal_flash_erase_loop.simps)
    apply (subst (asm) hal_flash_erase_loop.simps)
    apply (auto simp: c split: prod.splits if_splits option.splits intro!: ih)
    done
qed













text \<open>
  C6. Take an erase request on a known device that passes the checks. Let the scan of the
  sectors below index \<open>k\<close> (the loop on the descriptor with \<open>k\<close> sectors) have
  returned 0 in state \<open>sk\<close>, which holds whatever the earlier erases did. If sector
  \<open>k\<close> qualifies and the driver's erase of it returns a non-zero code, leaving state
  \<open>s2\<close>, then \<open>hal_flash_erase\<close> returns -1 and the state of the world is \<open>s2\<close>:
  the failing call is the last driver call of the run (no later sector is queried or
  erased, nothing is written), and the effects of the earlier erases are still there.
\<close>

theorem hal_flash_erase_aborts:
  "bsp i = Some hf \<and>
   hal_flash_check_addr hf address = 0 \<and> hal_flash_check_addr hf (address + num_bytes) = 0 \<and>
   \<not> address + num_bytes \<le> address \<and>
   0 \<le> k \<and> k < hf_sector_cnt hf \<and>
   hal_flash_erase_loop cfg (hf\<lparr>hf_sector_cnt := k\<rparr>) address (address + num_bytes) 0 s =
     Some (Inr 0, sk) \<and>
   hff_sector_info (hf_itf hf) k sk = ((0, start, size'), s1) \<and>
   address < start + size' \<and> address + num_bytes > start \<and>
   hff_erase_sector (hf_itf hf) start s1 = (rc, s2) \<and> rc \<noteq> 0
   \<longrightarrow> hal_flash_erase cfg bsp i address num_bytes s = Some (Inr (- 1), s2)"
proof (intro impI, elim conjE)
  assume known: "bsp i = Some hf"
    and ok: "hal_flash_check_addr hf address = 0"
      "hal_flash_check_addr hf (address + num_bytes) = 0"
      "\<not> address + num_bytes \<le> address"
    and k: "0 \<le> k" "k < hf_sector_cnt hf"
    and before: "hal_flash_erase_loop cfg (hf\<lparr>hf_sector_cnt := k\<rparr>) address
        (address + num_bytes) 0 s = Some (Inr 0, sk)"
    and si: "hff_sector_info (hf_itf hf) k sk = ((0, start, size'), s1)"
    and q: "address < start + size'" "address + num_bytes > start"
    and es: "hff_erase_sector (hf_itf hf) start s1 = (rc, s2)" "rc \<noteq> 0"
  have "hal_flash_erase cfg bsp i address num_bytes s =
      hal_flash_erase_loop cfg hf address (address + num_bytes) 0 s"
    using known ok by (simp add: hal_flash_erase_def)
  also have "\<dots> = hal_flash_erase_loop cfg hf address (address + num_bytes) k sk"
    using erase_loop_prefix[OF before] k by simp
  also have "\<dots> = Some (Inr (- 1), s2)"
    using k si q es by (subst hal_flash_erase_loop.simps) simp
  finally show "hal_flash_erase cfg bsp i address num_bytes s = Some (Inr (- 1), s2)" .
qed

text \<open>
  On the example device with a failing erase at \<open>0x8400\<close>:
  \<open>erase(id, 0x8300, 0x600)\<close> overlaps the sectors 0, 1 and 2. Sector 0 is erased,
  the erase of sector 1 fails, and the log ends there; the image still has sector 0
  erased.
\<close>

theorem hal_flash_erase_aborts_witness:
  "hal_flash_erase cfg_plain (bsp_of [traced_dev (flaky_dev 0x8400)]) 0 0x8300 0x600
     (\<lambda>a. 0, [])
   = Some (Inr (- 1),
       (\<lambda>x. if (x - 0x8000) div 0x400 = 0 then 0xff else 0,
        [Call_sector_info 0, Call_erase_sector 0x8000,
         Call_sector_info 1, Call_erase_sector 0x8400]))"
  using hal_flash_erase_aborts[of "bsp_of [traced_dev (flaky_dev 0x8400)]" 0
      "traced_dev (flaky_dev 0x8400)" "0x8300" "0x600" 1 cfg_plain "(\<lambda>a. 0, [])"
      "(\<lambda>x. if (x - 0x8000) div 0x400 = 0 then 0xff else 0,
        [Call_sector_info 0, Call_erase_sector 0x8000])"
      "0x8400" "0x400"
      "(\<lambda>x. if (x - 0x8000) div 0x400 = 0 then 0xff else 0,
        [Call_sector_info 0, Call_erase_sector 0x8000, Call_sector_info 1])"
      "- 3"
      "(\<lambda>x. if (x - 0x8000) div 0x400 = 0 then 0xff else 0,
        [Call_sector_info 0, Call_erase_sector 0x8000,
         Call_sector_info 1, Call_erase_sector 0x8400])"]
  by (simp add: hal_flash_erase_loop.simps bsp_of_def traced_dev_def
        traced_def flaky_dev_def example_dev_def ram_dev_def ram_funcs_def hal_flash_check_addr_def
        cfg_plain_def)


subsection \<open>Write verification\<close>











subsection \<open>Constant fill\<close>

text \<open>
  A failed read of the first chunk ends \<open>hal_flash_is_setto\<close> with -1. And
  what \<open>hal_flash_is_setto\<close> computes on a device whose reads succeed, leave the
  state alone and return the bytes of an image \<open>mem\<close>: every pass reads from
  \<open>address\<close>, so the result is 1 exactly when the first \<open>min 32 num_bytes\<close> bytes
  equal the value. Bytes of the range from offset 32 on are never compared.
\<close>

lemma is_setto_read_fails:
  "num_bytes \<noteq> 0 \<Longrightarrow>
   hff_read (hf_itf hf) address (if 32 > num_bytes then num_bytes else 32) s = ((rc, buf), s1) \<Longrightarrow>
   rc \<noteq> 0 \<Longrightarrow>
   hal_flash_is_setto hf address num_bytes val s = (- 1, s1)"
  by (subst hal_flash_is_setto.simps) simp

lemma is_setto_first_chunk:
  assumes reads: "\<forall>a m. hff_read (hf_itf hf) a m s =
      ((0, map (\<lambda>k. mem (a + of_nat k)) [0..<unat m]), s)"
  shows "hal_flash_is_setto hf address num_bytes val s =
    (if \<forall>k < min 32 (unat num_bytes). mem (address + of_nat k) = val then 1 else 0, s)"
proof (induction "unat num_bytes" arbitrary: num_bytes rule: less_induct)
  case less
  show ?case
  proof (cases "num_bytes = 0")
    case True
    then show ?thesis by (subst hal_flash_is_setto.simps) simp
  next
    case False
    define blksz where "blksz = (if 32 > num_bytes then num_bytes else 32)"
    have ub: "unat blksz = min 32 (unat num_bytes)"
      by (auto simp: blksz_def word_less_nat_alt)
    have pos: "0 < unat blksz" using False by (simp add: ub unat_gt_0)
    have le: "blksz \<le> num_bytes" by (auto simp: blksz_def)
    have sub: "unat (num_bytes - blksz) = unat num_bytes - unat blksz"
      using le by (simp add: unat_sub)
    have ex: "list_ex (\<lambda>b. b \<noteq> val)
        (take (unat blksz) (map (\<lambda>k. mem (address + of_nat k)) [0..<unat blksz])) \<longleftrightarrow>
      \<not> (\<forall>k < unat blksz. mem (address + of_nat k) = val)"
      by (auto simp: list_ex_iff)
    have step: "hal_flash_is_setto hf address num_bytes val s =
        (if \<forall>k < unat blksz. mem (address + of_nat k) = val
         then hal_flash_is_setto hf address (num_bytes - blksz) val s else (0, s))"
      using False reads ex
      by (subst hal_flash_is_setto.simps) (auto simp: blksz_def[symmetric])
    show ?thesis
    proof (cases "\<forall>k < unat blksz. mem (address + of_nat k) = val")
      case no: False
      then show ?thesis using step ub by auto
    next
      case yes: True
      have "unat (num_bytes - blksz) < unat num_bytes" using sub pos le
        by (simp add: word_le_nat_alt)
      from less.hyps[OF this]
      have "hal_flash_is_setto hf address (num_bytes - blksz) val s = (1, s)"
        using yes ub by (auto simp: sub)
      then show ?thesis using step yes ub by auto
    qed
  qed
qed

text \<open>
  C4 at a concrete input. The image holds \<open>0xff\<close> everywhere except \<open>0x00\<close> at
  \<open>0x8020\<close>, the 33rd byte of the range of 33 bytes at \<open>0x8000\<close>. The claim's
  answer is 0 (not every byte is \<open>0xff\<close>); \<open>hal_flash_is_setto\<close> returns 1, and
  the driver's log shows why: it read 32 bytes at \<open>0x8000\<close> and then 1 byte at
  \<open>0x8000\<close> again, not at \<open>0x8020\<close>.
\<close>

theorem hal_flash_is_setto_same_address:
  "fst (hal_flash_is_setto (traced_dev example_dev) 0x8000 33 0xff
         (\<lambda>a. if a = 0x8020 then 0 else 0xff, [])) = 1 \<and>
   snd (snd (hal_flash_is_setto (traced_dev example_dev) 0x8000 33 0xff
         (\<lambda>a. if a = 0x8020 then 0 else 0xff, []))) =
     [Call_read 0x8000 32, Call_read 0x8000 1] \<and>
   (\<lambda>a. if a = 0x8020 then 0 else 0xff :: u8) (0x8000 + 32 :: u32) = 0"
  by code_simp


subsection \<open>Emptiness\<close>

text \<open>
  C8. For an isempty request on a known device whose \<open>address\<close> and
  \<open>address + num_bytes\<close> pass bounds validation: when the driver's table has an
  is-empty function the result is that function's result, and when it has none the
  result is that of \<open>hal_flash_is_ones\<close> on the same range, which is
  \<open>hal_flash_is_setto\<close> with the value \<open>0xff\<close>.
\<close>

theorem hal_flash_isempty_validated:
  "bsp i = Some hf \<and> hal_flash_check_addr hf address = 0 \<and>
   hal_flash_check_addr hf (address + num_bytes) = 0 \<longrightarrow>
     (\<forall>is_empty. hff_is_empty (hf_itf hf) = Some is_empty \<longrightarrow>
        hal_flash_isempty bsp i address num_bytes s = is_empty address num_bytes s) \<and>
     (hff_is_empty (hf_itf hf) = None \<longrightarrow>
        hal_flash_isempty bsp i address num_bytes s = hal_flash_is_ones hf address num_bytes s \<and>
        hal_flash_is_ones hf address num_bytes s = hal_flash_is_setto hf address num_bytes 0xff s)"
  by (simp add: hal_flash_isempty_def hal_flash_is_ones_def)

text \<open>
  The example device has no is-empty function; a copy of it with one that returns 7
  shows the other branch.
\<close>

theorem hal_flash_isempty_validated_witness:
  "hal_flash_isempty (bsp_of [example_dev]) 0 0x8000 0x40 (\<lambda>a. 0xff)
     = hal_flash_is_setto example_dev 0x8000 0x40 0xff (\<lambda>a. 0xff) \<and>
   hal_flash_isempty
     (bsp_of [example_dev\<lparr>hf_itf := (hf_itf example_dev)\<lparr>hff_is_empty :=
        Some (\<lambda>address num_bytes m. (7, m))\<rparr>\<rparr>]) 0 0x8000 0x40 (\<lambda>a. 0xff)
     = (7, \<lambda>a. 0xff)"
  using hal_flash_isempty_validated[of "bsp_of [example_dev]" 0 example_dev "0x8000" "0x40"
      "\<lambda>a. 0xff"]
    hal_flash_isempty_validated[of
      "bsp_of [example_dev\<lparr>hf_itf := (hf_itf example_dev)\<lparr>hff_is_empty :=
        Some (\<lambda>address num_bytes m. (7, m))\<rparr>\<rparr>]" 0
      "example_dev\<lparr>hf_itf := (hf_itf example_dev)\<lparr>hff_is_empty :=
        Some (\<lambda>address num_bytes m. (7, m))\<rparr>\<rparr>" "0x8000" "0x40" "\<lambda>a. 0xff"]
  by (simp add: bsp_of_def hal_flash_check_addr_def example_dev_def ram_dev_def ram_funcs_def)

subsection \<open>Initialisation\<close>

lemma init_loop_from:
  "(\<forall>j < length hfs. bsp (of_nat (k + j)) = Some (hfs ! j)) \<Longrightarrow>
   bsp (of_nat (k + length hfs)) = None \<Longrightarrow>
   hal_flash_init_loop bsp (of_nat k) rc s =
     Some (if \<exists>r \<in> set (fst (init_each hfs s)). r \<noteq> 0 then - 1 else rc,
           snd (init_each hfs s))"
proof (induction hfs arbitrary: k rc s)
  case Nil
  then show ?case by (subst hal_flash_init_loop.simps) simp
next
  case (Cons hf hfs)
  have here: "bsp (of_nat k) = Some hf" using Cons.prems(1)[rule_format, of 0] by simp
  obtain r s1 where r: "hff_init (hf_itf hf) s = (r, s1)" by (cases "hff_init (hf_itf hf) s")
  have rest: "\<forall>j < length hfs. bsp (of_nat (Suc k + j)) = Some (hfs ! j)"
  proof (intro allI impI)
    fix j assume "j < length hfs"
    then show "bsp (of_nat (Suc k + j)) = Some (hfs ! j)"
      using Cons.prems(1)[rule_format, of "Suc j"] by simp
  qed
  have stop: "bsp (of_nat (Suc k + length hfs)) = None" using Cons.prems(2) by simp
  have step: "hal_flash_init_loop bsp (of_nat k) rc s =
      hal_flash_init_loop bsp (of_nat (Suc k)) (if r \<noteq> 0 then - 1 else rc) s1"
    by (subst hal_flash_init_loop.simps) (simp add: here r add.commute)
  show ?case
    unfolding step Cons.IH[OF rest stop]
    by (cases "init_each hfs s1") (auto simp: r)
qed

lemma init_loop_returns:
  assumes "hal_flash_init_loop (bsp :: 's bsp) i rc s = Some y"
  shows "\<exists>j. bsp j = None"
proof (rule hal_flash_init_loop.raw_induct
    [where P = "\<lambda>bsp i rc s y. \<exists>j. bsp j = None", OF _ assms])
  fix f :: "'s bsp \<Rightarrow> u8 \<Rightarrow> int \<Rightarrow> 's \<Rightarrow> (int \<times> 's) option"
    and bsp :: "'s bsp" and i rc s and y :: "int \<times> 's"
  assume ih: "\<And>bsp i rc s y. f bsp i rc s = Some y \<Longrightarrow> \<exists>j. bsp j = None"
    and body: "(case bsp i of
        None \<Rightarrow> Some (rc, s)
      | Some hf \<Rightarrow>
          (case hff_init (hf_itf hf) s of
             (r, s1) \<Rightarrow> f bsp (i + 1) (if r \<noteq> 0 then - 1 else rc) s1)) = Some y"
  show "\<exists>j. bsp j = None"
  proof (cases "bsp i")
    case None
    then show ?thesis by blast
  next
    case (Some hf)
    then show ?thesis using body ih by (auto split: prod.splits)
  qed
qed

lemma init_each_length: "length (fst (init_each hfs s)) = length hfs"
  by (induction hfs arbitrary: s) (simp_all add: case_prod_beta)

text \<open>
  C7. Let the registry know the devices \<open>hfs\<close> under the ids \<open>0 .. length hfs - 1\<close>
  and return no descriptor for the next id (so there are fewer than 256 of them).
  Then \<open>hal_flash_init\<close> returns; the state it leaves is the one after the init of
  every device of \<open>hfs\<close>, in order, each called whatever the earlier ones returned;
  and its result is -1 if and only if one of these calls returned non-zero, 0 otherwise
  (also when there is no device). When the registry has a descriptor for every one of
  the 256 ids the loop wraps around and never returns.
\<close>

theorem hal_flash_init_all:
  "((\<forall>k < length hfs. bsp (of_nat k) = Some (hfs ! k)) \<and> bsp (of_nat (length hfs)) = None
      \<longrightarrow> hal_flash_init bsp s =
            Some (if \<exists>r \<in> set (fst (init_each hfs s)). r \<noteq> 0 then - 1 else 0,
                  snd (init_each hfs s)) \<and>
          length (fst (init_each hfs s)) = length hfs) \<and>
   ((\<forall>i. bsp i \<noteq> None) \<longrightarrow> hal_flash_init bsp s = None)"
proof (intro conjI impI)
  assume h: "(\<forall>k < length hfs. bsp (of_nat k) = Some (hfs ! k)) \<and>
    bsp (of_nat (length hfs)) = None"
  then show "hal_flash_init bsp s =
      Some (if \<exists>r \<in> set (fst (init_each hfs s)). r \<noteq> 0 then - 1 else 0,
            snd (init_each hfs s))"
    using init_loop_from[of hfs bsp 0 0 s] by (simp add: hal_flash_init_def)
  show "length (fst (init_each hfs s)) = length hfs" by (rule init_each_length)
next
  assume all: "\<forall>i. bsp i \<noteq> None"
  have "hal_flash_init_loop bsp 0 0 s \<noteq> Some y" for y
    using init_loop_returns[of bsp 0 0 s y] all by blast
  then show "hal_flash_init bsp s = None"
    by (cases "hal_flash_init_loop bsp 0 0 s") (auto simp add: hal_flash_init_def)
qed

lemma bsp_of_nth: "k < length hfs \<Longrightarrow> length hfs \<le> 256 \<Longrightarrow> bsp_of hfs (of_nat k) = Some (hfs ! k)"
  by (simp add: bsp_of_def unat_of_nat)

lemma bsp_of_end: "length hfs < 256 \<Longrightarrow> bsp_of hfs (of_nat (length hfs)) = None"
  by (simp add: bsp_of_def unat_of_nat)

text \<open>
  Three devices whose second init fails: all three are initialised and the result is
  -1. Two devices that succeed, and no device: the result is 0.
\<close>

theorem hal_flash_init_all_witness:
  "hal_flash_init (bsp_of [tagged_dev 0 0, tagged_dev 1 (- 5), tagged_dev 2 0]) []
     = Some (- 1, [0, 1, 2]) \<and>
   hal_flash_init (bsp_of [tagged_dev 0 0, tagged_dev 1 0]) [] = Some (0, [0, 1]) \<and>
   hal_flash_init (bsp_of []) ([] :: nat list) = Some (0, []) \<and>
   hal_flash_init (\<lambda>i. Some (tagged_dev 0 0)) [] = None"
  using hal_flash_init_all[of "[tagged_dev 0 0, tagged_dev 1 (- 5), tagged_dev 2 0]"
      "bsp_of [tagged_dev 0 0, tagged_dev 1 (- 5), tagged_dev 2 0]" "[]"]
    hal_flash_init_all[of "[tagged_dev 0 0, tagged_dev 1 0]"
      "bsp_of [tagged_dev 0 0, tagged_dev 1 0]" "[]"]
    hal_flash_init_all[of "[]" "bsp_of []" "[] :: nat list"]
    hal_flash_init_all[of "[]" "\<lambda>i. Some (tagged_dev 0 0)" "[]"]
    bsp_of_nth[of _ "[tagged_dev 0 0, tagged_dev 1 (- 5), tagged_dev 2 0]"]
    bsp_of_nth[of _ "[tagged_dev 0 0, tagged_dev 1 0]"]
    bsp_of_end[of "[tagged_dev 0 0, tagged_dev 1 (- 5), tagged_dev 2 0]"]
    bsp_of_end[of "[tagged_dev 0 0, tagged_dev 1 0]"]
    bsp_of_end[of "[] :: nat list hal_flash list"]
  by (simp add: tagged_dev_def)


end
